theory Spec2Isabelle
  imports Main
begin

section \<open>Data model\<close>

text \<open>
  The program is a sequential script over the AWS Systems Manager parameter store. The
  store and the SDK are external: the model records every request the program issues, in
  order, and takes the answers from an arbitrary client whose answers may depend on all
  the requests issued before. Pointers of the SDK's structs are options (\<open>None\<close> is the
  nil pointer); a Go \<open>error\<close> value is represented by its message.
\<close>

text \<open>
  Modelled from the spec: the SDK's declaration of the parameter type is not part of the
  sources; the spec gives it as the enumeration plain string, string list, secure string.
\<close>

datatype ParameterType =
  ParameterTypeString | ParameterTypeStringList | ParameterTypeSecureString

record Parameter =
  p_Name :: "string option"
  p_Value :: "string option"
  p_Type :: ParameterType

record ParameterMetadata =
  pm_Name :: "string option"
  pm_Description :: "string option"

record GetParameterInput =
  gpi_Name :: "string option"
  gpi_WithDecryption :: "bool option"

record GetParameterOutput =
  gpo_Parameter :: "Parameter option"

record ParameterStringFilter =
  psf_Key :: "string option"
  psf_Values :: "string list"

record DescribeParametersInput =
  dpi_ParameterFilters :: "ParameterStringFilter list"
  dpi_NextToken :: "string option"

record DescribeParametersOutput =
  dpo_Parameters :: "ParameterMetadata list"
  dpo_NextToken :: "string option"

record PutParameterInput =
  ppi_Name :: "string option"
  ppi_Value :: "string option"
  ppi_Type :: ParameterType
  ppi_Description :: "string option"
  ppi_Overwrite :: "bool option"

text \<open>The requests the program can send, each with its input.\<close>

datatype call =
  LoadDefaultConfig string
| GetParameter GetParameterInput
| DescribeParameters DescribeParametersInput
| PutParameter PutParameterInput

text \<open>
  The client: for each operation, the answer to a request given the requests issued so
  far. \<open>Inl\<close> carries the message of the error the SDK returns.
\<close>

record ssm_client =
  sdk_LoadDefaultConfig :: "call list \<Rightarrow> string \<Rightarrow> string + unit"
  sdk_GetParameter :: "call list \<Rightarrow> GetParameterInput \<Rightarrow> string + GetParameterOutput"
  sdk_DescribeParameters ::
    "call list \<Rightarrow> DescribeParametersInput \<Rightarrow> string + DescribeParametersOutput"
  sdk_PutParameter :: "call list \<Rightarrow> PutParameterInput \<Rightarrow> string + unit"

text \<open>
  Output is kept as the sequence of formatting calls, each with its format string and its
  arguments: \<open>Printf\<close> writes to standard output, \<open>Fatalf\<close> is \<open>log.Fatalf\<close>, which
  prints and then ends the process with status 1.
\<close>

datatype arg = S string | T ParameterType

datatype event = Printf string "arg list" | Fatalf string "arg list"

record world =
  calls :: "call list"
  out :: "event list"

text \<open>
  How a function stops without a result: it returns a non-nil \<open>error\<close>, or it panics
  on a nil pointer dereference.
\<close>

datatype failure = Err string | NilPointerPanic

text \<open>How the process ends early: \<open>log.Fatalf\<close>, or an unrecovered panic.\<close>

datatype exit = Fatal | Panicked

definition printf :: "string \<Rightarrow> arg list \<Rightarrow> world \<Rightarrow> world" where
  "printf fmt args w = w\<lparr>out := out w @ [Printf fmt args]\<rparr>"

definition fatalf :: "string \<Rightarrow> arg list \<Rightarrow> world \<Rightarrow> world" where
  "fatalf fmt args w = w\<lparr>out := out w @ [Fatalf fmt args]\<rparr>"

definition issue :: "call \<Rightarrow> world \<Rightarrow> world" where
  "issue c w = w\<lparr>calls := calls w @ [c]\<rparr>"

text \<open>\<open>aws.ToString\<close>: the empty string for a nil pointer.\<close>

definition ToString :: "string option \<Rightarrow> string" where
  "ToString p = (case p of None \<Rightarrow> [] | Some s \<Rightarrow> s)"

section \<open>Name mapper\<close>

definition generateOldVariableName :: "string \<Rightarrow> string \<Rightarrow> string" where
  "generateOldVariableName environment variableName =
     ''/asset-accounting/'' @ environment @ ''/'' @ variableName"

definition generateNewVariableName :: "string \<Rightarrow> string \<Rightarrow> string" where
  "generateNewVariableName environment variableName =
     ''/asset-accounting/serviceplatform/'' @ environment @ ''/'' @ variableName"

definition serverlessParams :: "string list" where
  "serverlessParams = [''REDISCLOUD_URL'']"

text \<open>The loop of \<open>generateVariableNameMap\<close>: one assignment into the map per identifier.\<close>

fun variableNameMap_loop ::
  "string \<Rightarrow> string list \<Rightarrow> (string \<rightharpoonup> string) \<Rightarrow> (string \<rightharpoonup> string)" where
  "variableNameMap_loop environment [] variableNameMap = variableNameMap"
| "variableNameMap_loop environment (param # rest) variableNameMap =
     (let oldName = generateOldVariableName environment param;
          newName = generateNewVariableName environment param
      in variableNameMap_loop environment rest (variableNameMap(oldName \<mapsto> newName)))"

definition generateVariableNameMap :: "string \<Rightarrow> (string \<rightharpoonup> string)" where
  "generateVariableNameMap environment =
     variableNameMap_loop environment serverlessParams Map.empty"

section \<open>Store operations\<close>

definition getParameterDetails ::
  "ssm_client \<Rightarrow> string \<Rightarrow> world \<Rightarrow> (string + Parameter option) \<times> world" where
  "getParameterDetails client name w =
     (let w1 = printf ''Getting parameter details for: %v\<newline>'' [S name] w;
          input = \<lparr>gpi_Name = Some name, gpi_WithDecryption = Some True\<rparr>;
          answer = sdk_GetParameter client (calls w1) input;
          w2 = issue (GetParameter input) w1
      in case answer of
           Inl err \<Rightarrow> (Inl err, w2)
         | Inr result \<Rightarrow> (Inr (gpo_Parameter result), w2))"

definition getParameterDescription ::
  "ssm_client \<Rightarrow> string \<Rightarrow> world \<Rightarrow> (string + string) \<times> world" where
  "getParameterDescription client name w =
     (let input = \<lparr>dpi_ParameterFilters = [\<lparr>psf_Key = Some ''Name'', psf_Values = [name]\<rparr>],
                   dpi_NextToken = None\<rparr>;
          answer = sdk_DescribeParameters client (calls w) input;
          w1 = issue (DescribeParameters input) w
      in case answer of
           Inl err \<Rightarrow> (Inl err, w1)
         | Inr output \<Rightarrow>
             (case dpo_Parameters output of
                [] \<Rightarrow> (Inl ''parameter not found'', w1)
              | first # _ \<Rightarrow> (Inr (ToString (pm_Description first)), w1)))"

definition putParameter ::
  "ssm_client \<Rightarrow> string \<Rightarrow> string \<Rightarrow> Parameter option \<Rightarrow> world \<Rightarrow> (failure + unit) \<times> world"
  where
  "putParameter client name description dest w =
     (case dest of
        None \<Rightarrow> (Inl NilPointerPanic, w)
      | Some d \<Rightarrow>
          (case p_Value d of
             None \<Rightarrow> (Inl NilPointerPanic, w)
           | Some v \<Rightarrow>
               (let input = \<lparr>ppi_Name = Some name, ppi_Value = Some v, ppi_Type = p_Type d,
                             ppi_Description = Some description, ppi_Overwrite = None\<rparr>;
                    answer = sdk_PutParameter client (calls w) input;
                    w1 = issue (PutParameter input) w
                in case answer of
                     Inl err \<Rightarrow> (Inl (Err err), w1)
                   | Inr _ \<Rightarrow> (Inr (), w1))))"

section \<open>Copy orchestrator\<close>

definition copyParameter ::
  "ssm_client \<Rightarrow> string \<Rightarrow> string \<Rightarrow> world \<Rightarrow> (failure + unit) \<times> world" where
  "copyParameter client sourceName destName w =
     (let w0 = printf '' =====================\<newline>'' [] w in
      case getParameterDetails client sourceName w0 of
        (Inl err, w1) \<Rightarrow>
          (Inl (Err (''failed to get source parameter details: '' @ err)), w1)
      | (Inr sourceParam, w1) \<Rightarrow>
          (case getParameterDescription client sourceName w1 of
             (Inl err, w2) \<Rightarrow>
               (Inl (Err (''failed to get source parameter description: '' @ err)), w2)
           | (Inr description, w2) \<Rightarrow>
               (case sourceParam of
                  None \<Rightarrow> (Inl NilPointerPanic, w2)
                | Some sp \<Rightarrow>
                    (case p_Name sp of
                       None \<Rightarrow> (Inl NilPointerPanic, w2)
                     | Some n \<Rightarrow>
                         (case p_Value sp of
                            None \<Rightarrow> (Inl NilPointerPanic, w2)
                          | Some v \<Rightarrow>
                              (let w3 = printf
                                     ''name: %v, value: %v, type: %v, description: %v \<newline>''
                                     [S n, S v, T (p_Type sp), S description] w2
                               in case putParameter client destName description sourceParam w3 of
                                    (Inl (Err err), w4) \<Rightarrow>
                                      (Inl (Err (''failed to put destination parameter: '' @ err)),
                                       w4)
                                  | (Inl NilPointerPanic, w4) \<Rightarrow> (Inl NilPointerPanic, w4)
                                  | (Inr _, w4) \<Rightarrow>
                                      (Inr (),
                                       printf ''Success copied parameter from %v to %v\<newline>''
                                         [S sourceName, S destName] w4)))))))"

text \<open>
  The loop of \<open>main\<close> over the pairs, in the order in which \<open>range\<close> yields them.
  A failed copy ends the process through \<open>log.Fatalf\<close>; a panic ends it as well.
\<close>

fun main_loop :: "ssm_client \<Rightarrow> (string \<times> string) list \<Rightarrow> world \<Rightarrow> (exit + unit) \<times> world"
  where
  "main_loop client [] w = (Inr (), w)"
| "main_loop client ((oldEnvName, newEnName) # rest) w =
     (let w1 = printf ''oldName: %v == newName: %v\<newline>'' [S oldEnvName, S newEnName] w in
      case copyParameter client oldEnvName newEnName w1 of
        (Inl (Err err), w2) \<Rightarrow> (Inl Fatal, fatalf ''failed to copy parameter, %v'' [S err] w2)
      | (Inl NilPointerPanic, w2) \<Rightarrow> (Inl Panicked, w2)
      | (Inr _, w2) \<Rightarrow> main_loop client rest w2)"

section \<open>Bootstrapping\<close>

definition connectToAWSByProfile ::
  "ssm_client \<Rightarrow> string \<Rightarrow> world \<Rightarrow> (string + ssm_client) \<times> world" where
  "connectToAWSByProfile sdk profile w =
     (let answer = sdk_LoadDefaultConfig sdk (calls w) profile;
          w1 = issue (LoadDefaultConfig profile) w
      in case answer of
           Inl err \<Rightarrow> (Inl (''unable to load SDK config, '' @ err), w1)
         | Inr _ \<Rightarrow> (Inr sdk, w1))"

text \<open>
  Go leaves the order in which \<open>range\<close> visits a map unspecified. The order is a
  parameter of the run: any list of the map's entries without a repeated key.
\<close>

definition range_order :: "(string \<rightharpoonup> string) \<Rightarrow> (string \<times> string) list \<Rightarrow> bool" where
  "range_order m ps \<longleftrightarrow> distinct (map fst ps) \<and> map_of ps = m"

text \<open>
  \<open>main\<close>, with the environment label that the source fixes in its first line as an
  argument; \<open>rng\<close> is the order that \<open>range\<close> takes on the map.
\<close>

definition main_with ::
  "string \<Rightarrow> ssm_client \<Rightarrow> ((string \<rightharpoonup> string) \<Rightarrow> (string \<times> string) list) \<Rightarrow> world
     \<Rightarrow> (exit + unit) \<times> world" where
  "main_with environemnt sdk rng w =
     (let profile = ''aa_stg'';
          profile = (if environemnt = ''production'' then ''aa_prod'' else profile)
      in case connectToAWSByProfile sdk profile w of
           (Inl err, w1) \<Rightarrow> (Inl Fatal, fatalf ''failed to connect to AWS, %v'' [S err] w1)
         | (Inr client, w1) \<Rightarrow>
             (let oldToNewEnvName = generateVariableNameMap environemnt
              in main_loop client (rng oldToNewEnvName) w1))"

definition main ::
  "ssm_client \<Rightarrow> ((string \<rightharpoonup> string) \<Rightarrow> (string \<times> string) list) \<Rightarrow> world
     \<Rightarrow> (exit + unit) \<times> world" where
  "main = main_with ''staging''"

section \<open>Listing\<close>

text \<open>
  Modelled from the spec: the SDK's paginator is not part of the sources; the spec only
  calls the listing paginated. The model follows the SDK's paginator: it holds the token
  of the next page and whether the first page is still to be fetched; it has more pages
  before the first fetch and afterwards as long as the last answer carried a non-empty
  token; fetching a page sends the listing request with the held token and keeps the
  token of the answer.
\<close>

record DescribeParametersPaginator =
  pg_params :: DescribeParametersInput
  pg_nextToken :: "string option"
  pg_firstPage :: bool

definition NewDescribeParametersPaginator ::
  "DescribeParametersInput \<Rightarrow> DescribeParametersPaginator" where
  "NewDescribeParametersPaginator params =
     \<lparr>pg_params = params, pg_nextToken = dpi_NextToken params, pg_firstPage = True\<rparr>"

definition HasMorePages :: "DescribeParametersPaginator \<Rightarrow> bool" where
  "HasMorePages p \<longleftrightarrow>
     pg_firstPage p \<or> (case pg_nextToken p of None \<Rightarrow> False | Some t \<Rightarrow> t \<noteq> [])"

definition NextPage ::
  "ssm_client \<Rightarrow> DescribeParametersPaginator \<Rightarrow> world
     \<Rightarrow> (string + DescribeParametersOutput) \<times> DescribeParametersPaginator \<times> world" where
  "NextPage client p w =
     (if \<not> HasMorePages p then (Inl ''no more pages available'', p, w)
      else
        (let params = (pg_params p)\<lparr>dpi_NextToken := pg_nextToken p\<rparr>;
             answer = sdk_DescribeParameters client (calls w) params;
             w1 = issue (DescribeParameters params) w
         in case answer of
              Inl err \<Rightarrow> (Inl err, p, w1)
            | Inr result \<Rightarrow>
                (Inr result, p\<lparr>pg_firstPage := False, pg_nextToken := dpo_NextToken result\<rparr>,
                 w1)))"

text \<open>
  \<open>getAllParameters\<close>: the body of its loop ends in a \<open>break\<close> that no condition
  guards, so the body runs once if the loop is entered and the loop is left after it.
\<close>

definition getAllParameters ::
  "ssm_client \<Rightarrow> world \<Rightarrow> (string + ParameterMetadata list) \<times> world" where
  "getAllParameters client w =
     (let parameters = [];
          input = \<lparr>dpi_ParameterFilters = [], dpi_NextToken = None\<rparr>;
          paginator = NewDescribeParametersPaginator input
      in if HasMorePages paginator then
           (case NextPage client paginator w of
              (Inl err, _, w1) \<Rightarrow> (Inl err, w1)
            | (Inr page, _, w1) \<Rightarrow> (Inr (parameters @ dpo_Parameters page), w1))
         else (Inr parameters, w))"

text \<open>
  The complete listing, for comparison: every page is fetched, following the tokens, for
  at most \<open>fuel\<close> pages.
\<close>

fun listAllPages ::
  "nat \<Rightarrow> ssm_client \<Rightarrow> DescribeParametersPaginator \<Rightarrow> ParameterMetadata list \<Rightarrow> world
     \<Rightarrow> (string + ParameterMetadata list) option \<times> world" where
  "listAllPages 0 client p parameters w =
     (if HasMorePages p then (None, w) else (Some (Inr parameters), w))"
| "listAllPages (Suc fuel) client p parameters w =
     (if HasMorePages p then
        (case NextPage client p w of
           (Inl err, _, w1) \<Rightarrow> (Some (Inl err), w1)
         | (Inr page, p1, w1) \<Rightarrow> listAllPages fuel client p1 (parameters @ dpo_Parameters page) w1)
      else (Some (Inr parameters), w))"

text \<open>The requests that a step added to the record of requests.\<close>

definition new_calls :: "world \<Rightarrow> world \<Rightarrow> call list" where
  "new_calls w w' = drop (length (calls w)) (calls w')"

definition is_write :: "call \<Rightarrow> bool" where
  "is_write c = (case c of PutParameter _ \<Rightarrow> True | _ \<Rightarrow> False)"

section \<open>Requests and example stores\<close>

text \<open>The three requests of a copy, as the source builds them.\<close>

abbreviation getInput :: "string \<Rightarrow> GetParameterInput" where
  "getInput name \<equiv> \<lparr>gpi_Name = Some name, gpi_WithDecryption = Some True\<rparr>"

abbreviation describeInput :: "string \<Rightarrow> DescribeParametersInput" where
  "describeInput name \<equiv>
     \<lparr>dpi_ParameterFilters = [\<lparr>psf_Key = Some ''Name'', psf_Values = [name]\<rparr>],
      dpi_NextToken = None\<rparr>"

abbreviation putInput :: "string \<Rightarrow> string \<Rightarrow> ParameterType \<Rightarrow> string \<Rightarrow> PutParameterInput" where
  "putInput name v t d \<equiv>
     \<lparr>ppi_Name = Some name, ppi_Value = Some v, ppi_Type = t,
      ppi_Description = Some d, ppi_Overwrite = None\<rparr>"

abbreviation name_pair :: "string \<Rightarrow> string \<Rightarrow> string \<times> string" where
  "name_pair E v \<equiv> (generateOldVariableName E v, generateNewVariableName E v)"

text \<open>What one copy may send: reads with decryption, listings, writes without an overwrite flag.\<close>

definition copy_call :: "call \<Rightarrow> bool" where
  "copy_call c =
     (case c of
        LoadDefaultConfig _ \<Rightarrow> False
      | GetParameter i \<Rightarrow> gpi_WithDecryption i = Some True
      | DescribeParameters _ \<Rightarrow> True
      | PutParameter i \<Rightarrow> ppi_Overwrite i = None)"

text \<open>A store for examples: fixed parameters and metadata, every write accepted.\<close>

definition fake_store ::
  "(string \<times> Parameter) list \<Rightarrow> (string \<times> ParameterMetadata) list \<Rightarrow> ssm_client" where
  "fake_store params metadata =
     \<lparr>sdk_LoadDefaultConfig = (\<lambda>h profile. Inr ()),
      sdk_GetParameter = (\<lambda>h input.
         case gpi_Name input of
           None \<Rightarrow> Inl ''ValidationException''
         | Some n \<Rightarrow>
             (case map_of params n of
                None \<Rightarrow> Inl ''ParameterNotFound''
              | Some p \<Rightarrow> Inr \<lparr>gpo_Parameter = Some p\<rparr>)),
      sdk_DescribeParameters = (\<lambda>h input.
         Inr \<lparr>dpo_Parameters =
                concat (map (\<lambda>f. concat (map (\<lambda>n. map snd (filter (\<lambda>e. fst e = n) metadata))
                                              (psf_Values f)))
                            (dpi_ParameterFilters input)),
              dpo_NextToken = None\<rparr>),
      sdk_PutParameter = (\<lambda>h input. Inr ())\<rparr>"

definition secure_param :: "string \<Rightarrow> string \<Rightarrow> string \<times> Parameter" where
  "secure_param n v =
     (n, \<lparr>p_Name = Some n, p_Value = Some v, p_Type = ParameterTypeSecureString\<rparr>)"

definition described :: "string \<Rightarrow> string \<Rightarrow> string \<times> ParameterMetadata" where
  "described n d = (n, \<lparr>pm_Name = Some n, pm_Description = Some d\<rparr>)"

definition world0 :: world where
  "world0 = \<lparr>calls = [], out = []\<rparr>"

text \<open>A listing of two pages: the first answer carries a token, the second none.\<close>

definition paged_store ::
  "ParameterMetadata list \<Rightarrow> string \<Rightarrow> ParameterMetadata list \<Rightarrow> ssm_client" where
  "paged_store page1 token page2 =
     \<lparr>sdk_LoadDefaultConfig = (\<lambda>h profile. Inr ()),
      sdk_GetParameter = (\<lambda>h input. Inl ''ParameterNotFound''),
      sdk_DescribeParameters = (\<lambda>h input.
         case dpi_NextToken input of
           None \<Rightarrow> Inr \<lparr>dpo_Parameters = page1, dpo_NextToken = Some token\<rparr>
         | Some t \<Rightarrow>
             if t = token then Inr \<lparr>dpo_Parameters = page2, dpo_NextToken = None\<rparr>
             else Inl ''InvalidNextToken''),
      sdk_PutParameter = (\<lambda>h input. Inr ())\<rparr>"

text \<open>How \<open>main\<close> ends when a copy stops with the given failure.\<close>

definition exit_of :: "failure \<Rightarrow> exit" where
  "exit_of f = (case f of Err _ \<Rightarrow> Fatal | NilPointerPanic \<Rightarrow> Panicked)"

text \<open>The pair and a store for the environment label that the source fixes.\<close>

definition staging_pair :: "string \<times> string" where
  "staging_pair = (''/asset-accounting/staging/REDISCLOUD_URL'',
                   ''/asset-accounting/serviceplatform/staging/REDISCLOUD_URL'')"

definition staging_store :: ssm_client where
  "staging_store =
     fake_store [secure_param ''/asset-accounting/staging/REDISCLOUD_URL'' ''redis://x'']
                [described ''/asset-accounting/staging/REDISCLOUD_URL'' ''cache url'']"



section \<open>Basic facts\<close>

lemma calls_printf [simp]: "calls (printf f a w) = calls w"
  by (simp add: printf_def)

lemma calls_fatalf [simp]: "calls (fatalf f a w) = calls w"
  by (simp add: fatalf_def)

lemma calls_issue [simp]: "calls (issue c w) = calls w @ [c]"
  by (simp add: issue_def)

lemma out_issue [simp]: "out (issue c w) = out w"
  by (simp add: issue_def)

lemma out_printf [simp]: "out (printf f a w) = out w @ [Printf f a]"
  by (simp add: printf_def)

lemma out_fatalf [simp]: "out (fatalf f a w) = out w @ [Fatalf f a]"
  by (simp add: fatalf_def)

lemma getParameterDetails_fst:
  "fst (getParameterDetails client name w) =
     (case sdk_GetParameter client (calls w) (getInput name) of
        Inl err \<Rightarrow> Inl err | Inr result \<Rightarrow> Inr (gpo_Parameter result))"
  by (simp add: getParameterDetails_def Let_def split: sum.splits)

lemma getParameterDetails_calls:
  "calls (snd (getParameterDetails client name w)) = calls w @ [GetParameter (getInput name)]"
  by (simp add: getParameterDetails_def Let_def split: sum.splits)

lemma getParameterDescription_fst:
  "fst (getParameterDescription client name w) =
     (case sdk_DescribeParameters client (calls w) (describeInput name) of
        Inl err \<Rightarrow> Inl err
      | Inr output \<Rightarrow>
          (case dpo_Parameters output of
             [] \<Rightarrow> Inl ''parameter not found''
           | first # _ \<Rightarrow> Inr (ToString (pm_Description first))))"
  by (simp add: getParameterDescription_def Let_def split: sum.splits list.splits)

lemma getParameterDescription_calls:
  "calls (snd (getParameterDescription client name w)) =
     calls w @ [DescribeParameters (describeInput name)]"
  by (simp add: getParameterDescription_def Let_def split: sum.splits list.splits)

lemma putParameter_calls:
  "calls (snd (putParameter client name description dest w)) =
     (case dest of
        None \<Rightarrow> calls w
      | Some d \<Rightarrow>
          (case p_Value d of
             None \<Rightarrow> calls w
           | Some v \<Rightarrow> calls w @ [PutParameter (putInput name v (p_Type d) description)]))"
  by (simp add: putParameter_def Let_def split: sum.splits option.splits)

lemma putParameter_fst:
  "fst (putParameter client name description dest w) =
     (case dest of
        None \<Rightarrow> Inl NilPointerPanic
      | Some d \<Rightarrow>
          (case p_Value d of
             None \<Rightarrow> Inl NilPointerPanic
           | Some v \<Rightarrow>
               (case sdk_PutParameter client (calls w) (putInput name v (p_Type d) description) of
                  Inl err \<Rightarrow> Inl (Err err)
                | Inr _ \<Rightarrow> Inr ())))"
  by (simp add: putParameter_def Let_def split: sum.splits option.splits)



lemma new_calls_append [simp]: "calls w' = calls w @ xs \<Longrightarrow> new_calls w w' = xs"
  by (simp add: new_calls_def)

lemmas copy_defs = copyParameter_def getParameterDetails_def getParameterDescription_def
  putParameter_def Let_def

lemmas run_defs = copy_defs fake_store_def secure_param_def described_def world0_def
  printf_def fatalf_def issue_def ToString_def new_calls_def

lemmas main_run_defs = main_with_def connectToAWSByProfile_def generateVariableNameMap_def
  serverlessParams_def generateOldVariableName_def generateNewVariableName_def
  staging_store_def staging_pair_def

section \<open>Facts about the name mapper and the order of iteration\<close>

lemma generateOldVariableName_inj:
  "generateOldVariableName E v = generateOldVariableName E v' \<longleftrightarrow> v = v'"
  by (simp add: generateOldVariableName_def)

lemma variableNameMap_loop_map_of:
  "variableNameMap_loop E ps m = m ++ map_of (rev (map (name_pair E) ps))"
proof (induction ps arbitrary: m)
  case Nil
  show ?case by simp
next
  case (Cons p ps)
  have "m(generateOldVariableName E p \<mapsto> generateNewVariableName E p)
          ++ map_of (rev (map (name_pair E) ps))
        = m ++ map_of (rev (map (name_pair E) (p # ps)))"
    by (simp add: map_add_upd_left)
  then show ?case
    by (simp only: variableNameMap_loop.simps Let_def Cons.IH)
qed

lemma distinct_old_names:
  "distinct ps \<Longrightarrow> distinct (map fst (rev (map (name_pair E) ps)))"
  by (simp add: distinct_map rev_map [symmetric] comp_def inj_on_def generateOldVariableName_inj)

lemma variableNameMap_loop_graph:
  assumes "distinct ps"
  shows "Map.graph (variableNameMap_loop E ps Map.empty) = name_pair E ` set ps"
proof -
  have "Map.graph (map_of (rev (map (name_pair E) ps))) = set (rev (map (name_pair E) ps))"
    using distinct_old_names [OF assms] by (rule graph_map_of_if_distinct_dom)
  then show ?thesis by (simp add: variableNameMap_loop_map_of)
qed

lemma name_pair_inj: "inj_on (name_pair E) A"
  by (simp add: inj_on_def generateOldVariableName_inj)

lemma variableNameMap_loop_card:
  assumes "distinct ps"
  shows "card (Map.graph (variableNameMap_loop E ps Map.empty)) = length ps"
  using assms
  by (simp add: variableNameMap_loop_graph card_image name_pair_inj distinct_card)

lemma range_order_set:
  "range_order m ps \<Longrightarrow> set ps = Map.graph m"
  by (auto simp: range_order_def graph_map_of_if_distinct_dom)

lemma range_order_single:
  assumes "range_order (Map.empty(k \<mapsto> v)) ps"
  shows "ps = [(k, v)]"
proof -
  from assms have s: "set ps = {(k, v)}"
    by (simp add: range_order_set)
  from assms have "distinct ps"
    by (simp add: range_order_def distinct_map)
  with s have "length ps = 1"
    using distinct_card [of ps] by simp
  with s show ?thesis
    by (cases ps) auto
qed





text \<open>
  A map with two entries can be visited in either order: that the run of \<open>main\<close>
  has one order only rests on its map having one entry.
\<close>

lemma range_order_two_entries:
  assumes "k1 \<noteq> k2"
  shows "range_order (Map.empty(k1 \<mapsto> v1, k2 \<mapsto> v2)) [(k1, v1), (k2, v2)] \<and>
         range_order (Map.empty(k1 \<mapsto> v1, k2 \<mapsto> v2)) [(k2, v2), (k1, v1)]"
  using assms by (auto simp: range_order_def fun_upd_twist)

section \<open>The copy contract\<close>

text \<open>
  C1: when a copy returns without error, the source parameter and its description were
  both fetched, and the one write that was sent carries the destination name, the value
  and the type of the fetched parameter, the description that the metadata lookup
  returned, and no overwrite flag. The type is copied whatever it is.
\<close>

theorem copy_success:
  assumes "copyParameter client sourceName destName w = (Inr (), w')"
  shows "\<exists>result sp v output first rest.
           sdk_GetParameter client (calls w) (getInput sourceName) = Inr result \<and>
           gpo_Parameter result = Some sp \<and> p_Value sp = Some v \<and>
           sdk_DescribeParameters client (calls w @ [GetParameter (getInput sourceName)])
             (describeInput sourceName) = Inr output \<and>
           dpo_Parameters output = first # rest \<and>
           fst (getParameterDescription client sourceName
                  (snd (getParameterDetails client sourceName w))) =
             Inr (ToString (pm_Description first)) \<and>
           new_calls w w' =
             [GetParameter (getInput sourceName), DescribeParameters (describeInput sourceName),
              PutParameter \<lparr>ppi_Name = Some destName, ppi_Value = Some v, ppi_Type = p_Type sp,
                 ppi_Description = Some (ToString (pm_Description first)),
                 ppi_Overwrite = None\<rparr>]"
  using assms
  unfolding copyParameter_def getParameterDetails_def getParameterDescription_def
    putParameter_def Let_def
  by (auto split: prod.splits sum.splits option.splits failure.splits list.splits)

theorem copy_success_witness:
  "copyParameter
     (fake_store [secure_param ''/ns/staging/REDISCLOUD_URL'' ''redis://x'']
                 [described ''/ns/staging/REDISCLOUD_URL'' ''cache url''])
     ''/ns/staging/REDISCLOUD_URL'' ''/ns/sp/staging/REDISCLOUD_URL'' world0 =
   (Inr (),
    \<lparr>calls =
       [GetParameter (getInput ''/ns/staging/REDISCLOUD_URL''),
        DescribeParameters (describeInput ''/ns/staging/REDISCLOUD_URL''),
        PutParameter \<lparr>ppi_Name = Some ''/ns/sp/staging/REDISCLOUD_URL'',
           ppi_Value = Some ''redis://x'', ppi_Type = ParameterTypeSecureString,
           ppi_Description = Some ''cache url'', ppi_Overwrite = None\<rparr>],
     out =
       [Printf '' =====================\<newline>'' [],
        Printf ''Getting parameter details for: %v\<newline>'' [S ''/ns/staging/REDISCLOUD_URL''],
        Printf ''name: %v, value: %v, type: %v, description: %v \<newline>''
          [S ''/ns/staging/REDISCLOUD_URL'', S ''redis://x'', T ParameterTypeSecureString,
           S ''cache url''],
        Printf ''Success copied parameter from %v to %v\<newline>''
          [S ''/ns/staging/REDISCLOUD_URL'', S ''/ns/sp/staging/REDISCLOUD_URL'']]\<rparr>)"
  (is "?run = (Inr (), ?W)")
proof -
  have h: "?run = (Inr (), ?W)"
    by (simp add: copyParameter_def getParameterDetails_def getParameterDescription_def
        putParameter_def fake_store_def secure_param_def described_def world0_def
        printf_def issue_def ToString_def Let_def)
  from copy_success [OF h] show ?thesis using h by simp
qed

text \<open>
  C2: when the read of the source parameter fails, for a parameter that is not found or
  for any other reason, the copy returns an error that wraps the cause, and the read is
  the only request it has sent: there is no write.
\<close>

theorem copy_source_fetch_fails:
  assumes "sdk_GetParameter client (calls w) (getInput sourceName) = Inl err"
  shows "fst (copyParameter client sourceName destName w) =
           Inl (Err (''failed to get source parameter details: '' @ err)) \<and>
         new_calls w (snd (copyParameter client sourceName destName w)) =
           [GetParameter (getInput sourceName)] \<and>
         filter is_write (new_calls w (snd (copyParameter client sourceName destName w))) = []"
  using assms by (simp add: copy_defs new_calls_def is_write_def)

theorem copy_source_fetch_fails_witness:
  "sdk_GetParameter (fake_store [] []) (calls world0) (getInput ''/ns/staging/REDISCLOUD_URL'') =
     Inl ''ParameterNotFound'' \<and>
   fst (copyParameter (fake_store [] []) ''/ns/staging/REDISCLOUD_URL''
          ''/ns/sp/staging/REDISCLOUD_URL'' world0) =
     Inl (Err ''failed to get source parameter details: ParameterNotFound'') \<and>
   new_calls world0 (snd (copyParameter (fake_store [] []) ''/ns/staging/REDISCLOUD_URL''
          ''/ns/sp/staging/REDISCLOUD_URL'' world0)) =
     [GetParameter (getInput ''/ns/staging/REDISCLOUD_URL'')]"
proof -
  have h: "sdk_GetParameter (fake_store [] []) (calls world0)
             (getInput ''/ns/staging/REDISCLOUD_URL'') = Inl ''ParameterNotFound''"
    by (simp add: fake_store_def)
  from copy_source_fetch_fails [OF h, of "''/ns/sp/staging/REDISCLOUD_URL''"] h
  show ?thesis by simp
qed

text \<open>
  C3: when the source is read and the listing filtered by its name has no match, the
  description lookup fails with "parameter not found", the copy returns an error, and it
  has sent the read and the listing only. Whenever a copy sends a write, both the read
  and the listing succeeded before it, the listing with a match, and the write is the
  third request.
\<close>

theorem copy_description_missing:
  "(sdk_GetParameter client (calls w) (getInput sourceName) = Inr result \<and>
    sdk_DescribeParameters client (calls w @ [GetParameter (getInput sourceName)])
      (describeInput sourceName) = Inr listing \<and>
    dpo_Parameters listing = [] \<longrightarrow>
      fst (getParameterDescription client sourceName
             (snd (getParameterDetails client sourceName w))) = Inl ''parameter not found'' \<and>
      fst (copyParameter client sourceName destName w) =
        Inl (Err ''failed to get source parameter description: parameter not found'') \<and>
      new_calls w (snd (copyParameter client sourceName destName w)) =
        [GetParameter (getInput sourceName), DescribeParameters (describeInput sourceName)]) \<and>
   (PutParameter i \<in> set (new_calls w (snd (copyParameter client sourceName destName w))) \<longrightarrow>
      (\<exists>result output first rest.
         sdk_GetParameter client (calls w) (getInput sourceName) = Inr result \<and>
         sdk_DescribeParameters client (calls w @ [GetParameter (getInput sourceName)])
           (describeInput sourceName) = Inr output \<and>
         dpo_Parameters output = first # rest \<and>
         new_calls w (snd (copyParameter client sourceName destName w)) =
           [GetParameter (getInput sourceName), DescribeParameters (describeInput sourceName),
            PutParameter i]))"
  unfolding copy_defs new_calls_def
  by (auto split: prod.splits sum.splits option.splits failure.splits list.splits)

theorem copy_description_missing_witness:
  "fst (copyParameter (fake_store [secure_param ''/ns/staging/REDISCLOUD_URL'' ''redis://x''] [])
          ''/ns/staging/REDISCLOUD_URL'' ''/ns/sp/staging/REDISCLOUD_URL'' world0) =
     Inl (Err ''failed to get source parameter description: parameter not found'') \<and>
   new_calls world0
     (snd (copyParameter (fake_store [secure_param ''/ns/staging/REDISCLOUD_URL'' ''redis://x''] [])
          ''/ns/staging/REDISCLOUD_URL'' ''/ns/sp/staging/REDISCLOUD_URL'' world0)) =
     [GetParameter (getInput ''/ns/staging/REDISCLOUD_URL''),
      DescribeParameters (describeInput ''/ns/staging/REDISCLOUD_URL'')] \<and>
   new_calls world0
     (snd (copyParameter
          (fake_store [secure_param ''/ns/staging/REDISCLOUD_URL'' ''redis://x'']
                      [described ''/ns/staging/REDISCLOUD_URL'' ''cache url''])
          ''/ns/staging/REDISCLOUD_URL'' ''/ns/sp/staging/REDISCLOUD_URL'' world0)) =
     [GetParameter (getInput ''/ns/staging/REDISCLOUD_URL''),
      DescribeParameters (describeInput ''/ns/staging/REDISCLOUD_URL''),
      PutParameter (putInput ''/ns/sp/staging/REDISCLOUD_URL'' ''redis://x''
        ParameterTypeSecureString ''cache url'')]"
  (is "?A \<and> ?B \<and> ?C")
proof -
  let ?n = "''/ns/staging/REDISCLOUD_URL''"
  let ?d = "''/ns/sp/staging/REDISCLOUD_URL''"
  let ?p = "\<lparr>p_Name = Some ?n, p_Value = Some ''redis://x'',
              p_Type = ParameterTypeSecureString\<rparr>"
  let ?s1 = "fake_store [secure_param ?n ''redis://x''] []"
  let ?s2 = "fake_store [secure_param ?n ''redis://x''] [described ?n ''cache url'']"
  let ?i = "putInput ?d ''redis://x'' ParameterTypeSecureString ''cache url''"
  have g: "sdk_GetParameter ?s1 (calls world0) (getInput ?n) = Inr \<lparr>gpo_Parameter = Some ?p\<rparr>"
    by (simp add: fake_store_def secure_param_def)
  have d: "sdk_DescribeParameters ?s1 (calls world0 @ [GetParameter (getInput ?n)])
             (describeInput ?n) = Inr \<lparr>dpo_Parameters = [], dpo_NextToken = None\<rparr>"
    by (simp add: fake_store_def)
  have w: "PutParameter ?i \<in> set (new_calls world0 (snd (copyParameter ?s2 ?n ?d world0)))"
    by (simp add: run_defs)
  from copy_description_missing [where client = ?s1 and w = world0 and sourceName = ?n
      and destName = ?d and result = "\<lparr>gpo_Parameter = Some ?p\<rparr>"
      and listing = "\<lparr>dpo_Parameters = [], dpo_NextToken = None\<rparr>" and i = ?i] g d
  have ab: "?A \<and> ?B" by simp
  from copy_description_missing [where client = ?s2 and w = world0 and sourceName = ?n
      and destName = ?d and i = ?i] w
  have "?C" by blast
  with ab show ?thesis by simp
qed

section \<open>The loop over the pairs\<close>

lemma main_loop_append:
  "main_loop client pre w = (Inr (), w1) \<Longrightarrow>
   main_loop client (pre @ ps) w = main_loop client ps w1"
proof (induction pre arbitrary: w)
  case Nil
  then show ?case by simp
next
  case (Cons p pre)
  obtain a b where p: "p = (a, b)" by (cases p)
  from Cons.prems show ?case
    unfolding p
    by (auto simp: Let_def Cons.IH split: prod.splits sum.splits failure.splits)
qed

lemma main_loop_failing_pair:
  assumes "copyParameter client oldName newName
             (printf ''oldName: %v == newName: %v\<newline>'' [S oldName, S newName] w1) = (Inl f, w2)"
  shows "fst (main_loop client ((oldName, newName) # post) w1) = Inl (exit_of f) \<and>
         calls (snd (main_loop client ((oldName, newName) # post) w1)) = calls w2 \<and>
         main_loop client ((oldName, newName) # post) w1 =
           main_loop client [(oldName, newName)] w1"
  using assms by (cases f) (simp_all add: exit_of_def)

text \<open>
  C4: when the pairs before a pair were copied and the copy of that pair fails, the run
  ends there: with \<open>log.Fatalf\<close> for an error, with the panic otherwise. The
  requests of the whole run are those up to the failure, and the run is the same as the
  run over the list cut after the failing pair, whatever pairs follow: nothing is read,
  listed or written for them.
\<close>

theorem main_loop_fail_fast:
  assumes "main_loop client pre w = (Inr (), w1)"
      and "copyParameter client oldName newName
             (printf ''oldName: %v == newName: %v\<newline>'' [S oldName, S newName] w1) = (Inl f, w2)"
  shows "fst (main_loop client (pre @ (oldName, newName) # post) w) = Inl (exit_of f) \<and>
         calls (snd (main_loop client (pre @ (oldName, newName) # post) w)) = calls w2 \<and>
         main_loop client (pre @ (oldName, newName) # post) w =
           main_loop client (pre @ [(oldName, newName)]) w"
proof -
  have a: "main_loop client (pre @ (oldName, newName) # post) w =
             main_loop client ((oldName, newName) # post) w1"
    by (rule main_loop_append [OF assms(1)])
  have b: "main_loop client (pre @ [(oldName, newName)]) w =
             main_loop client [(oldName, newName)] w1"
    by (rule main_loop_append [OF assms(1)])
  show ?thesis
    unfolding a b by (rule main_loop_failing_pair [OF assms(2)])
qed

theorem main_loop_fail_fast_witness:
  "fst (main_loop
          (fake_store [secure_param ''/a/1'' ''v1'', secure_param ''/a/3'' ''v3'']
                      [described ''/a/1'' ''d1'', described ''/a/3'' ''d3''])
          [(''/a/1'', ''/b/1''), (''/a/2'', ''/b/2''), (''/a/3'', ''/b/3'')] world0) = Inl Fatal \<and>
   calls (snd (main_loop
          (fake_store [secure_param ''/a/1'' ''v1'', secure_param ''/a/3'' ''v3'']
                      [described ''/a/1'' ''d1'', described ''/a/3'' ''d3''])
          [(''/a/1'', ''/b/1''), (''/a/2'', ''/b/2''), (''/a/3'', ''/b/3'')] world0)) =
     [GetParameter (getInput ''/a/1''), DescribeParameters (describeInput ''/a/1''),
      PutParameter (putInput ''/b/1'' ''v1'' ParameterTypeSecureString ''d1''),
      GetParameter (getInput ''/a/2'')]"
proof -
  let ?s = "fake_store [secure_param ''/a/1'' ''v1'', secure_param ''/a/3'' ''v3'']
                       [described ''/a/1'' ''d1'', described ''/a/3'' ''d3'']"
  let ?w1 = "snd (main_loop ?s [(''/a/1'', ''/b/1'')] world0)"
  let ?c = "copyParameter ?s ''/a/2'' ''/b/2''
              (printf ''oldName: %v == newName: %v\<newline>'' [S ''/a/2'', S ''/b/2''] ?w1)"
  have "fst (main_loop ?s [(''/a/1'', ''/b/1'')] world0) = Inr ()"
    by (simp add: run_defs)
  then have h1: "main_loop ?s [(''/a/1'', ''/b/1'')] world0 = (Inr (), ?w1)"
    by (simp add: prod_eq_iff)
  have "fst ?c = Inl (Err ''failed to get source parameter details: ParameterNotFound'')"
    by (simp add: run_defs)
  then have h2: "?c = (Inl (Err ''failed to get source parameter details: ParameterNotFound''),
                       snd ?c)"
    by (simp add: prod_eq_iff)
  have c: "calls (snd ?c) =
     [GetParameter (getInput ''/a/1''), DescribeParameters (describeInput ''/a/1''),
      PutParameter (putInput ''/b/1'' ''v1'' ParameterTypeSecureString ''d1''),
      GetParameter (getInput ''/a/2'')]"
    by (simp add: run_defs)
  note r = main_loop_fail_fast [OF h1 h2, of "[(''/a/3'', ''/b/3'')]",
      unfolded append.simps exit_of_def failure.case]
  from r have a: "fst (main_loop ?s [(''/a/1'', ''/b/1''), (''/a/2'', ''/b/2''),
                    (''/a/3'', ''/b/3'')] world0) = Inl Fatal"
    by (rule conjunct1)
  from r have b: "calls (snd (main_loop ?s [(''/a/1'', ''/b/1''), (''/a/2'', ''/b/2''),
                    (''/a/3'', ''/b/3'')] world0)) = calls (snd ?c)"
    by blast
  show ?thesis
    by (rule conjI [OF a trans [OF b c]])
qed

text \<open>Every run only adds requests, and only requests of the three kinds of a copy.\<close>

lemma copyParameter_calls_ex:
  "\<exists>xs. calls (snd (copyParameter client sourceName destName w)) = calls w @ xs \<and>
        list_all copy_call xs"
  unfolding copy_defs
  by (auto simp: copy_call_def split: prod.splits sum.splits option.splits failure.splits
      list.splits)

lemma main_loop_calls_ex:
  "\<exists>xs. calls (snd (main_loop client ps w)) = calls w @ xs \<and> list_all copy_call xs"
proof (induction ps arbitrary: w)
  case Nil
  show ?case by simp
next
  case (Cons p ps)
  obtain a b where p: "p = (a, b)" by (cases p)
  let ?w1 = "printf ''oldName: %v == newName: %v\<newline>'' [S a, S b] w"
  obtain r w2 where c: "copyParameter client a b ?w1 = (r, w2)"
    by (cases "copyParameter client a b ?w1")
  from copyParameter_calls_ex [of client a b ?w1] c
  obtain xs where xs: "calls w2 = calls w @ xs" "list_all copy_call xs"
    by auto
  show ?case
  proof (cases r)
    case (Inl f)
    with c xs show ?thesis
      unfolding p by (cases f) (simp_all add: Let_def)
  next
    case (Inr u)
    from Cons.IH [of w2] obtain ys where
      ys: "calls (snd (main_loop client ps w2)) = calls w2 @ ys" "list_all copy_call ys"
      by blast
    with Inr c xs show ?thesis
      unfolding p by (simp add: Let_def)
  qed
qed

lemma main_with_calls_ex:
  "\<exists>xs. calls (snd (main_with E sdk rng w)) =
          calls w @ LoadDefaultConfig (if E = ''production'' then ''aa_prod'' else ''aa_stg'') # xs \<and>
        list_all copy_call xs"
proof -
  let ?p = "if E = ''production'' then ''aa_prod'' else ''aa_stg''"
  let ?w1 = "issue (LoadDefaultConfig ?p) w"
  show ?thesis
  proof (cases "sdk_LoadDefaultConfig sdk (calls w) ?p")
    case (Inl err)
    then show ?thesis
      by (simp add: main_with_def connectToAWSByProfile_def Let_def)
  next
    case (Inr u)
    from main_loop_calls_ex [of sdk "rng (generateVariableNameMap E)" ?w1]
    obtain xs where "calls (snd (main_loop sdk (rng (generateVariableNameMap E)) ?w1)) =
        calls ?w1 @ xs" "list_all copy_call xs"
      by blast
    with Inr show ?thesis
      by (simp add: main_with_def connectToAWSByProfile_def Let_def)
  qed
qed

lemma copy_call_write:
  "list_all copy_call xs \<Longrightarrow> PutParameter i \<in> set xs \<Longrightarrow> ppi_Overwrite i = None"
  by (auto simp: list_all_iff copy_call_def)

section \<open>The mapping\<close>

text \<open>
  C5: for every environment label the mapper yields as many pairs as there are variable
  identifiers, and the pairs are exactly, for each identifier \<open>v\<close>, the old name
  \<open>/asset-accounting/E/v\<close> with the new name
  \<open>/asset-accounting/serviceplatform/E/v\<close>: label and identifier are the same in both.
\<close>

theorem mapper_pairs:
  "card (Map.graph (generateVariableNameMap E)) = length serverlessParams \<and>
   Map.graph (generateVariableNameMap E) =
     (\<lambda>v. (''/asset-accounting/'' @ E @ ''/'' @ v,
            ''/asset-accounting/serviceplatform/'' @ E @ ''/'' @ v)) ` set serverlessParams"
proof -
  have d: "distinct serverlessParams" by (simp add: serverlessParams_def)
  have e: "(\<lambda>v. (''/asset-accounting/'' @ E @ ''/'' @ v,
            ''/asset-accounting/serviceplatform/'' @ E @ ''/'' @ v)) = name_pair E"
    by (simp add: generateOldVariableName_def generateNewVariableName_def)
  show ?thesis
    unfolding e generateVariableNameMap_def
    using variableNameMap_loop_graph [OF d, of E] variableNameMap_loop_card [OF d, of E]
    by blast
qed

section \<open>Order of the run\<close>




section \<open>Bootstrapping and listing\<close>

text \<open>
  C7: the first request of a run loads the configuration, with the profile \<open>aa_prod\<close>
  when the environment label is \<open>production\<close> and with the profile \<open>aa_stg\<close>
  for every other label; no later request loads a configuration. The label in the source
  is \<open>staging\<close>, so the program as it stands connects with \<open>aa_stg\<close>.
\<close>

theorem profile_selection:
  "(E = ''production'' \<longrightarrow>
      (\<exists>xs. new_calls w (snd (main_with E sdk rng w)) = LoadDefaultConfig ''aa_prod'' # xs \<and>
            list_all copy_call xs)) \<and>
   (E \<noteq> ''production'' \<longrightarrow>
      (\<exists>xs. new_calls w (snd (main_with E sdk rng w)) = LoadDefaultConfig ''aa_stg'' # xs \<and>
            list_all copy_call xs)) \<and>
   (\<exists>xs. new_calls w (snd (main sdk rng w)) = LoadDefaultConfig ''aa_stg'' # xs \<and>
         list_all copy_call xs)"
  using main_with_calls_ex [of E sdk rng w] main_with_calls_ex [of "''staging''" sdk rng w]
  by (auto simp: main_def new_calls_def)

theorem profile_selection_witness:
  "new_calls world0 (snd (main_with ''production'' (fake_store [] []) (\<lambda>m. []) world0)) =
     [LoadDefaultConfig ''aa_prod''] \<and>
   ''beta'' \<noteq> ''production'' \<and>
   new_calls world0 (snd (main_with ''beta'' (fake_store [] []) (\<lambda>m. []) world0)) =
     [LoadDefaultConfig ''aa_stg'']"
  using profile_selection [of "''production''" world0 "fake_store [] []" "\<lambda>m. []"]
    profile_selection [of "''beta''" world0 "fake_store [] []" "\<lambda>m. []"]
  by (simp add: main_with_def connectToAWSByProfile_def fake_store_def world0_def issue_def
      new_calls_def Let_def)

text \<open>
  C9: \<open>getAllParameters\<close> sends one listing request, without a token, and returns
  the parameters of that answer, or its error. When the answer carries a token for a
  further page, the result is still the first page alone, while the complete listing
  also has the parameters of the page after it.
\<close>

theorem getAllParameters_first_page_only:
  "new_calls w (snd (getAllParameters client w)) =
     [DescribeParameters \<lparr>dpi_ParameterFilters = [], dpi_NextToken = None\<rparr>] \<and>
   fst (getAllParameters client w) =
     (case sdk_DescribeParameters client (calls w)
             \<lparr>dpi_ParameterFilters = [], dpi_NextToken = None\<rparr> of
        Inl err \<Rightarrow> Inl err
      | Inr page \<Rightarrow> Inr (dpo_Parameters page)) \<and>
   (sdk_DescribeParameters client (calls w)
      \<lparr>dpi_ParameterFilters = [], dpi_NextToken = None\<rparr> = Inr page \<and>
    dpo_NextToken page = Some t \<and> t \<noteq> [] \<and>
    sdk_DescribeParameters client
      (calls w @ [DescribeParameters \<lparr>dpi_ParameterFilters = [], dpi_NextToken = None\<rparr>])
      \<lparr>dpi_ParameterFilters = [], dpi_NextToken = Some t\<rparr> = Inr page2 \<and>
    dpo_NextToken page2 = None \<longrightarrow>
      fst (getAllParameters client w) = Inr (dpo_Parameters page) \<and>
      fst (listAllPages 2 client
             (NewDescribeParametersPaginator \<lparr>dpi_ParameterFilters = [], dpi_NextToken = None\<rparr>)
             [] w) = Some (Inr (dpo_Parameters page @ dpo_Parameters page2)))"
  by (auto simp: getAllParameters_def NextPage_def HasMorePages_def
      NewDescribeParametersPaginator_def new_calls_def Let_def numeral_2_eq_2
      split: sum.splits)

theorem getAllParameters_first_page_only_witness:
  "fst (getAllParameters
          (paged_store [snd (described ''/a/1'' ''d1'')] ''t1'' [snd (described ''/a/2'' ''d2'')])
          world0) = Inr [snd (described ''/a/1'' ''d1'')] \<and>
   fst (listAllPages 2
          (paged_store [snd (described ''/a/1'' ''d1'')] ''t1'' [snd (described ''/a/2'' ''d2'')])
          (NewDescribeParametersPaginator \<lparr>dpi_ParameterFilters = [], dpi_NextToken = None\<rparr>)
          [] world0) =
     Some (Inr [snd (described ''/a/1'' ''d1''), snd (described ''/a/2'' ''d2'')])"
proof -
  let ?s = "paged_store [snd (described ''/a/1'' ''d1'')] ''t1'' [snd (described ''/a/2'' ''d2'')]"
  let ?i = "\<lparr>dpi_ParameterFilters = [], dpi_NextToken = None\<rparr>"
  let ?p1 = "\<lparr>dpo_Parameters = [snd (described ''/a/1'' ''d1'')], dpo_NextToken = Some ''t1''\<rparr>"
  let ?p2 = "\<lparr>dpo_Parameters = [snd (described ''/a/2'' ''d2'')], dpo_NextToken = None\<rparr>"
  have h: "sdk_DescribeParameters ?s (calls world0) ?i = Inr ?p1 \<and>
           dpo_NextToken ?p1 = Some ''t1'' \<and> ''t1'' \<noteq> [] \<and>
           sdk_DescribeParameters ?s (calls world0 @ [DescribeParameters ?i])
             \<lparr>dpi_ParameterFilters = [], dpi_NextToken = Some ''t1''\<rparr> = Inr ?p2 \<and>
           dpo_NextToken ?p2 = None"
    by (simp add: paged_store_def)
  from getAllParameters_first_page_only [of world0 ?s ?p1 "''t1''" ?p2] h
  show ?thesis by simp
qed

text \<open>
  C10: every write that \<open>putParameter\<close>, the loop over the pairs, or a whole run
  sends has its overwrite flag unset; what happens to a destination that already holds a
  parameter is then the store's default.
\<close>

theorem writes_without_overwrite:
  "(PutParameter i \<in> set (new_calls w (snd (putParameter client name description dest w))) \<longrightarrow>
      ppi_Overwrite i = None) \<and>
   (PutParameter i \<in> set (new_calls w (snd (main_loop client ps w))) \<longrightarrow>
      ppi_Overwrite i = None) \<and>
   (PutParameter i \<in> set (new_calls w (snd (main_with E client rng w))) \<longrightarrow>
      ppi_Overwrite i = None)"
proof (intro conjI impI)
  assume "PutParameter i \<in> set (new_calls w (snd (putParameter client name description dest w)))"
  then show "ppi_Overwrite i = None"
    by (auto simp: putParameter_def new_calls_def Let_def split: option.splits sum.splits)
next
  assume a: "PutParameter i \<in> set (new_calls w (snd (main_loop client ps w)))"
  from main_loop_calls_ex [of client ps w] obtain xs where
    "calls (snd (main_loop client ps w)) = calls w @ xs" "list_all copy_call xs"
    by blast
  with a show "ppi_Overwrite i = None"
    by (auto simp: new_calls_def dest: copy_call_write)
next
  assume a: "PutParameter i \<in> set (new_calls w (snd (main_with E client rng w)))"
  from main_with_calls_ex [of E client rng w] obtain xs where
    "calls (snd (main_with E client rng w)) =
       calls w @ LoadDefaultConfig (if E = ''production'' then ''aa_prod'' else ''aa_stg'') # xs"
    "list_all copy_call xs"
    by blast
  with a show "ppi_Overwrite i = None"
    by (auto simp: new_calls_def dest: copy_call_write)
qed

theorem writes_without_overwrite_witness:
  "PutParameter (putInput (snd staging_pair) ''redis://x'' ParameterTypeSecureString ''cache url'') \<in>
     set (new_calls world0 (snd (putParameter staging_store (snd staging_pair) ''cache url''
            (Some (snd (secure_param (fst staging_pair) ''redis://x''))) world0))) \<and>
   PutParameter (putInput (snd staging_pair) ''redis://x'' ParameterTypeSecureString ''cache url'') \<in>
     set (new_calls world0 (snd (main_loop staging_store [staging_pair] world0))) \<and>
   PutParameter (putInput (snd staging_pair) ''redis://x'' ParameterTypeSecureString ''cache url'') \<in>
     set (new_calls world0 (snd (main_with ''staging'' staging_store (\<lambda>m. [staging_pair]) world0))) \<and>
   ppi_Overwrite (putInput (snd staging_pair) ''redis://x'' ParameterTypeSecureString ''cache url'') =
     None"
  (is "?A \<and> ?B \<and> ?C \<and> ?D")
proof -
  have a: ?A by (simp add: run_defs main_run_defs)
  have b: ?B by (simp add: run_defs main_run_defs)
  have c: ?C by (simp add: run_defs main_run_defs)
  from writes_without_overwrite [of
      "putInput (snd staging_pair) ''redis://x'' ParameterTypeSecureString ''cache url''"
      world0 staging_store "snd staging_pair" "''cache url''"
      "Some (snd (secure_param (fst staging_pair) ''redis://x''))" "[staging_pair]"
      "''staging''" "\<lambda>m. [staging_pair]"] a b c
  have ?D by blast
  with a b c show ?thesis by blast
qed

end
